theory Spec2Isabelle
  imports Main "HOL-Library.Sublist"
begin

section \<open>JavaScript values used by the pages\<close>

text \<open>
  Strings are \<open>string\<close>. A value of type \<open>string | null\<close> or \<open>string | undefined\<close> is a
  \<open>string option\<close>, \<open>None\<close> being \<open>null\<close>/\<open>undefined\<close>. Such a value is truthy when it is
  a non-empty string.
\<close>

definition truthy :: "string option \<Rightarrow> bool" where
  "truthy v = (case v of None \<Rightarrow> False | Some t \<Rightarrow> t \<noteq> [])"

text \<open>\<open>a || b\<close> with \<open>a\<close> an optional string and \<open>b\<close> a string.\<close>

definition or_else :: "string option \<Rightarrow> string \<Rightarrow> string" where
  "or_else a b = (case a of None \<Rightarrow> b | Some t \<Rightarrow> if t \<noteq> [] then t else b)"

text \<open>
  \<open>String.prototype.trim\<close> strips white space and line terminators from both ends; the
  code points below are those of them that a \<open>char\<close> can hold (TAB, LF, VT, FF, CR, SP, NBSP).
\<close>

definition is_whitespace :: "char \<Rightarrow> bool" where
  "is_whitespace c = ((of_char c :: nat) \<in> {9, 10, 11, 12, 13, 32, 160})"

definition trim :: "string \<Rightarrow> string" where
  "trim t = rev (dropWhile is_whitespace (rev (dropWhile is_whitespace t)))"

text \<open>\<open>Number.prototype.toString\<close> on a non-negative integer, and on any integer.\<close>

definition digit :: "nat \<Rightarrow> char" where
  "digit d = char_of (48 + d)"

fun toString :: "nat \<Rightarrow> string" where
  "toString n = (if n < 10 then [digit n] else toString (n div 10) @ [digit (n mod 10)])"

declare toString.simps [simp del]

definition toString_int :: "int \<Rightarrow> string" where
  "toString_int i = (if i < 0 then CHR ''-'' # toString (nat (- i)) else toString (nat i))"

text \<open>The two clock reads a handler makes: \<open>Date.now()\<close> and \<open>new Date()\<close>, in milliseconds.\<close>

record clock =
  Date_now :: nat
  new_Date :: nat


section \<open>HTTP requests and their outcomes\<close>

datatype http_method = GET | POST | DELETE

text \<open>The body of the chat request: \<open>JSON.stringify({ message, session_id })\<close>.\<close>

datatype payload = SendBody string "string option"

record http_request =
  request_method :: http_method
  url :: string
  headers :: "(string \<times> string) list"
  payload :: "payload option"

text \<open>
  What \<open>response.json()\<close> gives: it rejects on a body that is not JSON, it may resolve to
  \<open>null\<close> (reading a property of it raises), and otherwise to decoded data. The data is
  a record of the fields the caller reads, each \<open>None\<close> when the body does not have it
  (an object without the field, or a JSON value that is not an object); a field that is
  there has the type the page declares for it.
\<close>

datatype 'a json_body = Unparsable | JsonNull | JsonData 'a

record 'a response =
  status :: nat
  body :: "'a json_body"

text \<open>\<open>response.ok\<close>: the status is in the range 200 to 299.\<close>

definition ok :: "('a, 'b) response_scheme \<Rightarrow> bool" where
  "ok r = (200 \<le> status r \<and> status r \<le> 299)"

text \<open>A \<open>fetch\<close> promise either rejects (network-level error) or resolves to a response.\<close>

datatype 'a settled = Rejected | Resolved "'a response"

datatype failure = NetworkError | SyntaxError | TypeError


section \<open>Chat page\<close>

datatype source_type = Academic | Industry | Web

record Source =
  id_src :: string
  title_src :: string
  url_src :: string
  snippet :: string
  type_src :: source_type

datatype role = User | Assistant

text \<open>
  A message of the page. \<open>content\<close> is \<open>None\<close> when the message was built from a body
  without \<open>message\<close> (the content is then \<open>undefined\<close>); \<open>sources_msg\<close> is \<open>None\<close> when
  the message has no \<open>sources\<close> field.
\<close>

record Message =
  id_msg :: string
  role :: role
  content :: "string option"
  timestamp :: nat
  sources_msg :: "Source list option"

text \<open>The decoded body of \<open>POST /chat/send/\<close>, as \<open>sendMessage\<close> reads it.\<close>

record ChatData =
  message :: "string option"
  sources :: "Source list option"
  session_id :: "string option"

text \<open>The state of \<open>ChatPageContent\<close>, one field for each \<open>useState\<close>.\<close>

record chat_state =
  messages :: "Message list"
  inputMessage :: string
  isLoading :: bool
  sessionId :: "string option"
  showScrollButton :: bool

definition initial_chat :: chat_state where
  "initial_chat = \<lparr>messages = [], inputMessage = [], isLoading = False, sessionId = None,
     showScrollButton = False\<rparr>"

text \<open>
  The effect on \<open>[searchParams, sessionId]\<close>; its argument is
  \<open>searchParams.get('session_id')\<close>.
\<close>

definition session_effect :: "string option \<Rightarrow> chat_state \<Rightarrow> chat_state" where
  "session_effect sessionIdFromUrl s =
     (if truthy sessionIdFromUrl \<and> \<not> truthy (sessionId s)
      then s\<lparr>sessionId := sessionIdFromUrl\<rparr> else s)"

definition chat_send_url :: string where
  "chat_send_url = ''http://127.0.0.1:8000/api/chat/send/''"

definition apology :: string where
  "apology = ''I apologize, but I'' @ [CHR 0x27] @
     ''m experiencing some technical difficulties. Please try again in a moment.''"

text \<open>
  \<open>sendMessage\<close> up to its first \<open>await\<close>: the guard, the three state updates and the
  \<open>fetch\<close> call. The result is the state the next render shows and the requests issued.
\<close>

definition sendMessage_start ::
    "clock \<Rightarrow> string option \<Rightarrow> chat_state \<Rightarrow> chat_state \<times> http_request list" where
  "sendMessage_start clk messageText s =
     (let textToSend = or_else messageText (inputMessage s) in
      if trim textToSend = [] \<or> isLoading s then (s, [])
      else
        let userMessage = \<lparr>id_msg = toString (Date_now clk), role = User,
              content = Some textToSend, timestamp = new_Date clk, sources_msg = None\<rparr>
        in (s\<lparr>messages := messages s @ [userMessage], inputMessage := [], isLoading := True\<rparr>,
            [\<lparr>request_method = POST, url = chat_send_url,
              headers = [(''Content-Type'', ''application/json'')],
              payload = Some (SendBody textToSend (sessionId s))\<rparr>]))"

text \<open>
  The body of the \<open>try\<close> block once the \<open>fetch\<close> promise has settled. \<open>held\<close> is the
  \<open>sessionId\<close> the closure captured when \<open>sendMessage\<close> was called; \<open>s\<close> is the state the
  functional updates are applied to.
\<close>

definition sendMessage_try ::
    "clock \<Rightarrow> string option \<Rightarrow> ChatData settled \<Rightarrow> chat_state \<Rightarrow> failure + chat_state" where
  "sendMessage_try clk held res s =
     (case res of
        Rejected \<Rightarrow> Inl NetworkError
      | Resolved response \<Rightarrow>
          (case body response of
             Unparsable \<Rightarrow> Inl SyntaxError
           | JsonNull \<Rightarrow> Inl TypeError
           | JsonData data \<Rightarrow>
               let assistantMessage = \<lparr>id_msg = toString (Date_now clk + 1), role = Assistant,
                     content = message data, timestamp = new_Date clk,
                     sources_msg = Some (case sources data of None \<Rightarrow> [] | Some xs \<Rightarrow> xs)\<rparr>;
                   s1 = s\<lparr>messages := messages s @ [assistantMessage]\<rparr>
               in Inr (if truthy (session_id data) \<and> \<not> truthy held
                       then s1\<lparr>sessionId := session_id data\<rparr> else s1)))"

definition apology_message :: "clock \<Rightarrow> Message" where
  "apology_message clk = \<lparr>id_msg = toString (Date_now clk), role = Assistant,
     content = Some apology, timestamp = new_Date clk, sources_msg = None\<rparr>"

text \<open>The rest of \<open>sendMessage\<close>: \<open>try\<close>, \<open>catch\<close> and \<open>finally\<close>.\<close>

definition sendMessage_settle ::
    "clock \<Rightarrow> string option \<Rightarrow> ChatData settled \<Rightarrow> chat_state \<Rightarrow> chat_state" where
  "sendMessage_settle clk held res s =
     (case sendMessage_try clk held res s of
        Inr s' \<Rightarrow> s'
      | Inl error \<Rightarrow> s\<lparr>messages := messages s @ [apology_message clk]\<rparr>)
     \<lparr>isLoading := False\<rparr>"

text \<open>One complete call: what the user passes, the clock reads, and how the request settles.\<close>

record send_call =
  arg :: "string option"
  at_call :: clock
  outcome :: "ChatData settled"
  at_settle :: clock

definition sendMessage :: "send_call \<Rightarrow> chat_state \<Rightarrow> chat_state" where
  "sendMessage c s =
     (case sendMessage_start (at_call c) (arg c) s of
        (s1, []) \<Rightarrow> s1
      | (s1, request # _) \<Rightarrow> sendMessage_settle (at_settle c) (sessionId s) (outcome c) s1)"

text \<open>
  The page over time. \<open>sendMessage\<close> is not awaited by its callers, so a call can be made
  while an earlier one is suspended at its \<open>fetch\<close>. \<open>awaiting\<close> lists the suspended
  calls, each as the \<open>sessionId\<close> its closure captured. An event is a call of
  \<open>sendMessage\<close>, or the settling of the request of the \<open>i\<close>-th suspended call.
\<close>

record page =
  view :: chat_state
  awaiting :: "string option list"

definition initial_page :: page where
  "initial_page = \<lparr>view = initial_chat, awaiting = []\<rparr>"

datatype event = Call clock "string option" | Settle nat clock "ChatData settled"

fun step :: "event \<Rightarrow> page \<Rightarrow> page" where
  "step (Call clk messageText) p =
     (case sendMessage_start clk messageText (view p) of
        (s1, requests) \<Rightarrow>
          \<lparr>view = s1, awaiting = awaiting p @ map (\<lambda>request. sessionId (view p)) requests\<rparr>)"
| "step (Settle i clk res) p =
     (if i < length (awaiting p)
      then \<lparr>view = sendMessage_settle clk (awaiting p ! i) res (view p),
            awaiting = take i (awaiting p) @ drop (Suc i) (awaiting p)\<rparr>
      else p)"

fun run :: "event list \<Rightarrow> page \<Rightarrow> page" where
  "run [] p = p"
| "run (e # es) p = run es (step e p)"

text \<open>
  The pages that calls and responses lead to from the initial one: no call is suspended,
  or one is, with the in-flight flag up and the session id it captured still the page's.
\<close>

definition serialised :: "page \<Rightarrow> bool" where
  "serialised p =
     (case awaiting p of
        [] \<Rightarrow> True
      | [held] \<Rightarrow> isLoading (view p) \<and> held = sessionId (view p)
      | _ \<Rightarrow> False)"

definition startNewChat :: "chat_state \<Rightarrow> chat_state \<times> http_request list" where
  "startNewChat s = (s\<lparr>messages := [], sessionId := None\<rparr>, [])"


section \<open>Dashboard page\<close>

record DashboardStats =
  research_sessions :: int
  messages_exchanged :: int
  sources_cited :: int
  research_hours :: int

record ResearchSession =
  id_rs :: int
  title_rs :: string
  messages_rs :: int
  lastActive :: string
  topics :: "string list"
  status_rs :: string

record AIInsight =
  title :: string
  description :: string
  action :: string

text \<open>
  The decoded bodies of the sessions and insights endpoints, as \<open>fetchDashboardData\<close>
  reads them: \<open>sessionsData.sessions\<close> and \<open>insightsData.insights\<close>.
\<close>

record SessionsData =
  sessions :: "ResearchSession list option"

record InsightsData =
  insights_json :: "AIInsight list option"

text \<open>
  The state of \<open>ResearchPage\<close>, one field for each \<open>useState\<close>. \<open>setStats(statsData)\<close>
  stores whatever the body decoded to, so \<open>stats\<close> may hold \<open>null\<close>.
\<close>

record dashboard =
  isLoaded :: bool
  activeFilter :: string
  stats :: "DashboardStats option"
  recentSessions :: "ResearchSession list"
  insights :: "AIInsight list"
  loading :: bool
  error :: "string option"

definition initial_dashboard :: dashboard where
  "initial_dashboard = \<lparr>isLoaded = False, activeFilter = ''all'',
     stats = Some \<lparr>research_sessions = 0, messages_exchanged = 0, sources_cited = 0,
       research_hours = 0\<rparr>,
     recentSessions = [], insights = [], loading = True, error = None\<rparr>"

text \<open>\<open>fetch(url)\<close> with no options.\<close>

definition fetch_get :: "string \<Rightarrow> http_request" where
  "fetch_get u = \<lparr>request_method = GET, url = u, headers = [], payload = None\<rparr>"

definition dashboard_requests :: "http_request list" where
  "dashboard_requests =
     [fetch_get ''http://127.0.0.1:8000/api/chat/dashboard/stats/'',
      fetch_get ''http://127.0.0.1:8000/api/chat/dashboard/sessions/'',
      fetch_get ''http://127.0.0.1:8000/api/chat/dashboard/insights/'']"

definition load_failed :: string where
  "load_failed = ''Failed to load dashboard data. Please try again.''"

definition delete_failed :: string where
  "delete_failed = ''Failed to delete session. Please try again.''"

text \<open>
  \<open>fetchDashboardData\<close> up to its \<open>await Promise.all\<close>: two state updates and the three
  \<open>fetch\<close> calls.
\<close>

definition fetchDashboardData_start :: "dashboard \<Rightarrow> dashboard \<times> http_request list" where
  "fetchDashboardData_start s = (s\<lparr>loading := True, error := None\<rparr>, dashboard_requests)"

text \<open>
  The three \<open>if (response.ok)\<close> blocks. Each gives the state after its setter and the
  exception it raised, if any; a block that raises has called no setter.
\<close>

definition apply_stats ::
    "DashboardStats response \<Rightarrow> dashboard \<Rightarrow> dashboard \<times> failure option" where
  "apply_stats statsResponse s =
     (if ok statsResponse then
        (case body statsResponse of
           Unparsable \<Rightarrow> (s, Some SyntaxError)
         | JsonNull \<Rightarrow> (s\<lparr>stats := None\<rparr>, None)
         | JsonData statsData \<Rightarrow> (s\<lparr>stats := Some statsData\<rparr>, None))
      else (s, None))"

definition apply_sessions ::
    "SessionsData response \<Rightarrow> dashboard \<Rightarrow> dashboard \<times> failure option" where
  "apply_sessions sessionsResponse s =
     (if ok sessionsResponse then
        (case body sessionsResponse of
           Unparsable \<Rightarrow> (s, Some SyntaxError)
         | JsonNull \<Rightarrow> (s, Some TypeError)
         | JsonData sessionsData \<Rightarrow>
             (s\<lparr>recentSessions := (case sessions sessionsData of None \<Rightarrow> [] | Some xs \<Rightarrow> xs)\<rparr>,
              None))
      else (s, None))"

definition apply_insights ::
    "InsightsData response \<Rightarrow> dashboard \<Rightarrow> dashboard \<times> failure option" where
  "apply_insights insightsResponse s =
     (if ok insightsResponse then
        (case body insightsResponse of
           Unparsable \<Rightarrow> (s, Some SyntaxError)
         | JsonNull \<Rightarrow> (s, Some TypeError)
         | JsonData insightsData \<Rightarrow>
             (s\<lparr>insights := (case insights_json insightsData of None \<Rightarrow> [] | Some xs \<Rightarrow> xs)\<rparr>,
              None))
      else (s, None))"

text \<open>Sequencing inside the \<open>try\<close> block: an exception skips the statements after it.\<close>

fun and_then ::
    "dashboard \<times> failure option \<Rightarrow> (dashboard \<Rightarrow> dashboard \<times> failure option) \<Rightarrow>
     dashboard \<times> failure option" where
  "and_then (s, None) f = f s"
| "and_then (s, Some e) f = (s, Some e)"

text \<open>
  The \<open>try\<close> block once the three promises have settled: \<open>Promise.all\<close> rejects as soon
  as one of them does.
\<close>

fun fetchDashboardData_try ::
    "DashboardStats settled \<Rightarrow> SessionsData settled \<Rightarrow> InsightsData settled \<Rightarrow>
     dashboard \<Rightarrow> dashboard \<times> failure option" where
  "fetchDashboardData_try (Resolved statsResponse) (Resolved sessionsResponse)
       (Resolved insightsResponse) s =
     and_then (and_then (apply_stats statsResponse s) (apply_sessions sessionsResponse))
       (apply_insights insightsResponse)"
| "fetchDashboardData_try _ _ _ s = (s, Some NetworkError)"

definition fetchDashboardData_settle ::
    "DashboardStats settled \<Rightarrow> SessionsData settled \<Rightarrow> InsightsData settled \<Rightarrow>
     dashboard \<Rightarrow> dashboard" where
  "fetchDashboardData_settle statsOutcome sessionsOutcome insightsOutcome s =
     (case fetchDashboardData_try statsOutcome sessionsOutcome insightsOutcome s of
        (s', None) \<Rightarrow> s'
      | (s', Some err) \<Rightarrow> s'\<lparr>error := Some load_failed\<rparr>)
     \<lparr>loading := False\<rparr>"

text \<open>One complete load.\<close>

definition fetchDashboardData ::
    "DashboardStats settled \<Rightarrow> SessionsData settled \<Rightarrow> InsightsData settled \<Rightarrow>
     dashboard \<Rightarrow> dashboard" where
  "fetchDashboardData statsOutcome sessionsOutcome insightsOutcome s =
     fetchDashboardData_settle statsOutcome sessionsOutcome insightsOutcome
       (fst (fetchDashboardData_start s))"

definition delete_url :: "int \<Rightarrow> string" where
  "delete_url sessionId' =
     ''http://127.0.0.1:8000/api/chat/dashboard/sessions/'' @ toString_int sessionId' @ ''/delete/''"

text \<open>
  \<open>deleteSession\<close> up to its \<open>await\<close>; \<open>confirmed\<close> is what \<open>confirm(...)\<close> returned.
\<close>

definition deleteSession_start ::
    "bool \<Rightarrow> int \<Rightarrow> dashboard \<Rightarrow> dashboard \<times> http_request list" where
  "deleteSession_start confirmed sessionId' s =
     (if \<not> confirmed then (s, [])
      else (s, [\<lparr>request_method = DELETE, url = delete_url sessionId', headers = [], payload = None\<rparr>]))"

text \<open>
  \<open>deleteSession\<close> once the request has settled. The body of the response is not read.
  On success the call of \<open>fetchDashboardData\<close> runs up to its own \<open>await\<close> and is not
  awaited.
\<close>

definition deleteSession_settle ::
    "int \<Rightarrow> 'a settled \<Rightarrow> dashboard \<Rightarrow> dashboard \<times> http_request list" where
  "deleteSession_settle sessionId' res s =
     (case res of
        Rejected \<Rightarrow> (s\<lparr>error := Some delete_failed\<rparr>, [])
      | Resolved response \<Rightarrow>
          if ok response
          then fetchDashboardData_start
                 (s\<lparr>recentSessions :=
                      filter (\<lambda>session. id_rs session \<noteq> sessionId') (recentSessions s)\<rparr>)
          else (s\<lparr>error := Some delete_failed\<rparr>, []))"


section \<open>The HTTP client wrapper\<close>

text \<open>
  \<open>API_BASE_URL\<close>; its argument is \<open>process.env.NEXT_PUBLIC_API_URL\<close>.
\<close>

definition API_BASE_URL :: "string option \<Rightarrow> string" where
  "API_BASE_URL NEXT_PUBLIC_API_URL = or_else NEXT_PUBLIC_API_URL ''http://localhost:8000/api''"

text \<open>
  The instance \<open>api\<close> is created with \<open>baseURL: API_BASE_URL\<close>; a call site hands it a
  verb and a path, which the instance resolves against its base. This is the target of
  each call site of \<open>chatAPI\<close>, \<open>researchAPI\<close> and \<open>healthCheck\<close>; \<open>q\<close> is the query after
  \<open>encodeURIComponent\<close>.
\<close>

record api_target =
  baseURL :: string
  verb :: http_method
  path :: string

definition api :: "string option \<Rightarrow> http_method \<Rightarrow> string \<Rightarrow> api_target" where
  "api env v p = \<lparr>baseURL = API_BASE_URL env, verb = v, path = p\<rparr>"

definition chatAPI_sendMessage :: "string option \<Rightarrow> api_target" where
  "chatAPI_sendMessage env = api env POST ''/chat/send/''"

definition chatAPI_getSessions :: "string option \<Rightarrow> api_target" where
  "chatAPI_getSessions env = api env GET ''/chat/sessions/''"

definition chatAPI_getSession :: "string option \<Rightarrow> string \<Rightarrow> api_target" where
  "chatAPI_getSession env sessionId' = api env GET (''/chat/sessions/'' @ sessionId' @ ''/'')"

definition chatAPI_deleteSession :: "string option \<Rightarrow> string \<Rightarrow> api_target" where
  "chatAPI_deleteSession env sessionId' = api env DELETE (''/chat/sessions/'' @ sessionId' @ ''/'')"

definition researchAPI_search :: "string option \<Rightarrow> api_target" where
  "researchAPI_search env = api env POST ''/research/search/''"

definition researchAPI_getSources :: "string option \<Rightarrow> string \<Rightarrow> api_target" where
  "researchAPI_getSources env q = api env GET (''/research/sources/?q='' @ q)"

definition healthCheck :: "string option \<Rightarrow> api_target" where
  "healthCheck env = api env GET ''/health/''"


section \<open>Chat page: the guard and the optimistic update\<close>

text \<open>
  C5. \<open>sendMessage\<close> does nothing when the text to send is empty after trimming or when a
  request is in flight: it issues no request and the state (message sequence, session id,
  input buffer, in-flight flag and everything else) is the state it was called in, both
  when it returns and after whatever the network would have answered.
\<close>

theorem sendMessage_noop:
  "trim (or_else messageText (inputMessage s)) = [] \<or> isLoading s \<Longrightarrow>
     sendMessage_start clk messageText s = (s, [])
     \<and> sendMessage \<lparr>arg = messageText, at_call = clk, outcome = res, at_settle = clk'\<rparr> s = s"
  by (auto simp: sendMessage_def sendMessage_start_def Let_def)

theorem sendMessage_noop_witness:
  "trim (or_else None (inputMessage (initial_chat\<lparr>inputMessage := ''  ''\<rparr>))) = []
   \<and> sendMessage_start \<lparr>Date_now = 5, new_Date = 5\<rparr> None (initial_chat\<lparr>inputMessage := ''  ''\<rparr>)
       = (initial_chat\<lparr>inputMessage := ''  ''\<rparr>, [])
   \<and> isLoading (initial_chat\<lparr>isLoading := True\<rparr>)
   \<and> sendMessage_start \<lparr>Date_now = 5, new_Date = 5\<rparr> (Some ''hello'')
        (initial_chat\<lparr>isLoading := True\<rparr>)
       = (initial_chat\<lparr>isLoading := True\<rparr>, [])
   \<and> sendMessage \<lparr>arg = Some ''hello'', at_call = \<lparr>Date_now = 5, new_Date = 5\<rparr>,
        outcome = Rejected, at_settle = \<lparr>Date_now = 9, new_Date = 9\<rparr>\<rparr>
        (initial_chat\<lparr>isLoading := True\<rparr>)
       = initial_chat\<lparr>isLoading := True\<rparr>"
proof -
  have blank: "trim (or_else None (inputMessage (initial_chat\<lparr>inputMessage := ''  ''\<rparr>))) = []"
    by (simp add: trim_def or_else_def is_whitespace_def)
  have busy: "isLoading (initial_chat\<lparr>isLoading := True\<rparr>)"
    by simp
  note empty_input = sendMessage_noop [where messageText = None
      and s = "initial_chat\<lparr>inputMessage := ''  ''\<rparr>" and clk = "\<lparr>Date_now = 5, new_Date = 5\<rparr>"
      and res = Rejected and clk' = "\<lparr>Date_now = 9, new_Date = 9\<rparr>"]
  note in_flight = sendMessage_noop [where messageText = "Some ''hello''"
      and s = "initial_chat\<lparr>isLoading := True\<rparr>" and clk = "\<lparr>Date_now = 5, new_Date = 5\<rparr>"
      and res = Rejected and clk' = "\<lparr>Date_now = 9, new_Date = 9\<rparr>"]
  from blank busy empty_input in_flight show ?thesis by blast
qed

text \<open>
  C4. When the text to send is not empty after trimming and no request is in flight, the
  part of \<open>sendMessage\<close> that runs before the request settles appends exactly one user
  message holding that text, empties the input buffer, raises the in-flight flag and
  issues the one request: the page shows the message while the call is still suspended.
\<close>

theorem sendMessage_optimistic_update:
  assumes "textToSend = or_else messageText (inputMessage s)"
    and "trim textToSend \<noteq> []" and "\<not> isLoading s"
  shows "sendMessage_start clk messageText s =
           (s\<lparr>messages := messages s @
                [\<lparr>id_msg = toString (Date_now clk), role = User, content = Some textToSend,
                  timestamp = new_Date clk, sources_msg = None\<rparr>],
              inputMessage := [], isLoading := True\<rparr>,
            [\<lparr>request_method = POST, url = chat_send_url,
              headers = [(''Content-Type'', ''application/json'')],
              payload = Some (SendBody textToSend (sessionId s))\<rparr>])
         \<and> step (Call clk messageText) \<lparr>view = s, awaiting = []\<rparr> =
           \<lparr>view = s\<lparr>messages := messages s @
                [\<lparr>id_msg = toString (Date_now clk), role = User, content = Some textToSend,
                  timestamp = new_Date clk, sources_msg = None\<rparr>],
              inputMessage := [], isLoading := True\<rparr>,
            awaiting = [sessionId s]\<rparr>"
  using assms by (simp add: sendMessage_start_def Let_def)

theorem sendMessage_optimistic_update_witness:
  "''hello'' = or_else None (inputMessage (initial_chat\<lparr>inputMessage := ''hello''\<rparr>))
   \<and> trim ''hello'' \<noteq> [] \<and> \<not> isLoading (initial_chat\<lparr>inputMessage := ''hello''\<rparr>)
   \<and> sendMessage_start \<lparr>Date_now = 1700, new_Date = 1701\<rparr> None
        (initial_chat\<lparr>inputMessage := ''hello''\<rparr>) =
       (\<lparr>messages = [\<lparr>id_msg = ''1700'', role = User, content = Some ''hello'', timestamp = 1701,
                      sources_msg = None\<rparr>],
         inputMessage = [], isLoading = True, sessionId = None, showScrollButton = False\<rparr>,
        [\<lparr>request_method = POST, url = ''http://127.0.0.1:8000/api/chat/send/'',
          headers = [(''Content-Type'', ''application/json'')],
          payload = Some (SendBody ''hello'' None)\<rparr>])
   \<and> step (Call \<lparr>Date_now = 1700, new_Date = 1701\<rparr> None)
        \<lparr>view = initial_chat\<lparr>inputMessage := ''hello''\<rparr>, awaiting = []\<rparr> =
       \<lparr>view =
          \<lparr>messages = [\<lparr>id_msg = ''1700'', role = User, content = Some ''hello'',
                         timestamp = 1701, sources_msg = None\<rparr>],
           inputMessage = [], isLoading = True, sessionId = None, showScrollButton = False\<rparr>,
        awaiting = [None]\<rparr>"
proof -
  have sent: "''hello'' = or_else None (inputMessage (initial_chat\<lparr>inputMessage := ''hello''\<rparr>))"
    by (simp add: or_else_def)
  have filled: "trim ''hello'' \<noteq> []"
    by (simp add: trim_def is_whitespace_def)
  have idle: "\<not> isLoading (initial_chat\<lparr>inputMessage := ''hello''\<rparr>)"
    by (simp add: initial_chat_def)
  have stamp: "toString 1700 = ''1700''"
    by code_simp
  from sendMessage_optimistic_update [OF sent filled idle, of "\<lparr>Date_now = 1700, new_Date = 1701\<rparr>"]
    sent filled idle stamp
  show ?thesis by (simp add: initial_chat_def chat_send_url_def)
qed


section \<open>Chat page: new chat\<close>

text \<open>
  C8. \<open>startNewChat\<close> empties the message sequence, unsets the session id, issues no
  request, and a second call right after the first changes nothing more.
\<close>

theorem startNewChat_idempotent:
  "messages (fst (startNewChat s)) = [] \<and> sessionId (fst (startNewChat s)) = None
   \<and> snd (startNewChat s) = []
   \<and> startNewChat (fst (startNewChat s)) = startNewChat s"
  by (simp add: startNewChat_def)

text \<open>
  What \<open>startNewChat\<close> unsets, the effect on \<open>[searchParams, sessionId]\<close> sets again when
  the URL still carries a session id.
\<close>

lemma startNewChat_then_session_effect:
  "truthy u \<Longrightarrow> sessionId (session_effect u (fst (startNewChat s))) = u"
  by (simp add: startNewChat_def session_effect_def truthy_def)


section \<open>Chat page: the session identifier\<close>

lemma sendMessage_try_sessionId:
  "sendMessage_try clk held res s = Inr s' \<Longrightarrow>
     sessionId s' = sessionId s \<or> (\<not> truthy held \<and> truthy (sessionId s'))"
  by (auto simp: sendMessage_try_def Let_def split: settled.splits json_body.splits if_splits)

lemma sendMessage_settle_sessionId:
  "sessionId (sendMessage_settle clk held res s) = sessionId s
   \<or> (\<not> truthy held \<and> truthy (sessionId (sendMessage_settle clk held res s)))"
proof (cases "sendMessage_try clk held res s")
  case (Inl e)
  then show ?thesis by (simp add: sendMessage_settle_def)
next
  case (Inr s')
  with sendMessage_try_sessionId [OF Inr] show ?thesis
    by (simp add: sendMessage_settle_def)
qed

lemma sendMessage_start_sessionId:
  "sessionId (fst (sendMessage_start clk messageText s)) = sessionId s"
  by (simp add: sendMessage_start_def Let_def)

lemma serialised_initial: "serialised initial_page"
  by (simp add: serialised_def initial_page_def)

lemma serialised_step: "serialised p \<Longrightarrow> serialised (step e p)"
proof (cases e)
  case (Call clk messageText)
  assume "serialised p"
  then show ?thesis using Call
    by (auto simp: serialised_def sendMessage_start_def Let_def split: list.splits)
next
  case (Settle i clk res)
  assume wf: "serialised p"
  show ?thesis
  proof (cases "i < length (awaiting p)")
    case False
    with Settle wf show ?thesis by simp
  next
    case True
    with wf obtain held where "awaiting p = [held]" and "i = 0"
      by (cases "awaiting p"; cases "tl (awaiting p)") (auto simp: serialised_def)
    with Settle show ?thesis by (simp add: serialised_def)
  qed
qed

text \<open>Never more than one request is in flight.\<close>

lemma one_request_in_flight: "serialised p \<Longrightarrow> length (awaiting (run es p)) \<le> 1"
proof (induction es arbitrary: p)
  case Nil
  then show ?case by (auto simp: serialised_def split: list.splits)
next
  case (Cons e es)
  then show ?case using serialised_step [of p e] by simp
qed

lemma step_sessionId:
  assumes "serialised p"
  shows "sessionId (view (step e p)) = sessionId (view p)
         \<or> (\<not> truthy (sessionId (view p)) \<and> truthy (sessionId (view (step e p))))"
proof (cases e)
  case (Call clk messageText)
  then show ?thesis
    using sendMessage_start_sessionId [of clk messageText "view p"]
    by (simp split: prod.splits) (metis fst_conv)
next
  case (Settle i clk res)
  show ?thesis
  proof (cases "i < length (awaiting p)")
    case False
    with Settle show ?thesis by simp
  next
    case True
    with assms have "awaiting p ! i = sessionId (view p)"
      by (auto simp: serialised_def split: list.splits)
    with True Settle
      sendMessage_settle_sessionId [of clk "sessionId (view p)" res "view p"]
    show ?thesis by simp
  qed
qed

lemma run_held:
  "serialised p \<Longrightarrow> truthy (sessionId (view p)) \<Longrightarrow>
     sessionId (view (run es p)) = sessionId (view p)"
proof (induction es arbitrary: p)
  case Nil
  show ?case by simp
next
  case (Cons e es)
  from Cons.prems step_sessionId [of p e]
  have same: "sessionId (view (step e p)) = sessionId (view p)" by blast
  moreover have "serialised (step e p)"
    using Cons.prems(1) by (rule serialised_step)
  ultimately show ?case
    using Cons.IH [of "step e p"] Cons.prems(2) by simp
qed

text \<open>
  C2. Take any page that calls of \<open>sendMessage\<close> and their responses lead to. Once a
  step has set the session identifier (the identifier after the step is not the one
  before it, which only a response can cause), no later call or response changes it,
  whatever \<open>session_id\<close> the later responses carry.
\<close>

theorem session_id_first_writer_wins:
  assumes "serialised p"
    and "sessionId (view (step e p)) \<noteq> sessionId (view p)"
  shows "sessionId (view (run es (step e p))) = sessionId (view (step e p))"
proof -
  from assms step_sessionId [of p e]
  have "truthy (sessionId (view (step e p)))" by blast
  moreover from assms(1) have "serialised (step e p)" by (rule serialised_step)
  ultimately show ?thesis by (rule run_held [rotated])
qed

theorem session_id_first_writer_wins_witness:
  "serialised (step (Call \<lparr>Date_now = 1000, new_Date = 1000\<rparr> (Some ''hello'')) initial_page)
   \<and> sessionId (view (step (Settle 0 \<lparr>Date_now = 1500, new_Date = 1500\<rparr>
          (Resolved \<lparr>status = 200, body = JsonData
             \<lparr>message = Some ''hi there'', sources = None, session_id = Some ''abc''\<rparr>\<rparr>))
        (step (Call \<lparr>Date_now = 1000, new_Date = 1000\<rparr> (Some ''hello'')) initial_page)))
      \<noteq> sessionId (view
        (step (Call \<lparr>Date_now = 1000, new_Date = 1000\<rparr> (Some ''hello'')) initial_page))
   \<and> sessionId (view (run
        [Call \<lparr>Date_now = 2000, new_Date = 2000\<rparr> (Some ''more''),
         Call \<lparr>Date_now = 2100, new_Date = 2100\<rparr> (Some ''again''),
         Settle 0 \<lparr>Date_now = 2500, new_Date = 2500\<rparr>
           (Resolved \<lparr>status = 200, body = JsonData
              \<lparr>message = Some ''sure'', sources = None, session_id = Some ''xyz''\<rparr>\<rparr>)]
        (step (Settle 0 \<lparr>Date_now = 1500, new_Date = 1500\<rparr>
          (Resolved \<lparr>status = 200, body = JsonData
             \<lparr>message = Some ''hi there'', sources = None, session_id = Some ''abc''\<rparr>\<rparr>))
          (step (Call \<lparr>Date_now = 1000, new_Date = 1000\<rparr> (Some ''hello'')) initial_page))))
      = Some ''abc''"
proof -
  let ?p = "step (Call \<lparr>Date_now = 1000, new_Date = 1000\<rparr> (Some ''hello'')) initial_page"
  let ?e = "(Settle 0 \<lparr>Date_now = 1500, new_Date = 1500\<rparr>
          (Resolved \<lparr>status = 200, body = JsonData
             \<lparr>message = Some ''hi there'', sources = None, session_id = Some ''abc''\<rparr>\<rparr>))"
  have reached: "serialised ?p"
    using serialised_initial by (rule serialised_step)
  have adopted: "sessionId (view (step ?e ?p)) = Some ''abc''"
    by (simp add: initial_page_def initial_chat_def sendMessage_start_def sendMessage_settle_def
        sendMessage_try_def or_else_def trim_def is_whitespace_def truthy_def Let_def)
  have before: "sessionId (view ?p) = None"
    by (simp add: initial_page_def initial_chat_def sendMessage_start_def or_else_def trim_def
        is_whitespace_def Let_def)
  from adopted before have changed: "sessionId (view (step ?e ?p)) \<noteq> sessionId (view ?p)"
    by simp
  from session_id_first_writer_wins [OF reached changed, of
      "[Call \<lparr>Date_now = 2000, new_Date = 2000\<rparr> (Some ''more''),
        Call \<lparr>Date_now = 2100, new_Date = 2100\<rparr> (Some ''again''),
        Settle 0 \<lparr>Date_now = 2500, new_Date = 2500\<rparr>
          (Resolved \<lparr>status = 200, body = JsonData
             \<lparr>message = Some ''sure'', sources = None, session_id = Some ''xyz''\<rparr>\<rparr>)]"]
    reached changed adopted
  show ?thesis by (simp only: simp_thms)
qed

text \<open>
  C10. The effect that reads \<open>session_id\<close> from the page URL leaves the state as it is
  whenever a session id is held; when it does change the session id, none was held and
  the new one is the URL's. The part of \<open>sendMessage\<close> that handles the response has the
  same guard on the id the call started with.
\<close>

theorem session_effect_guard:
  "(truthy (sessionId s) \<longrightarrow> session_effect u s = s)
   \<and> (sessionId (session_effect u s) \<noteq> sessionId s \<longrightarrow>
        \<not> truthy (sessionId s) \<and> truthy u \<and> sessionId (session_effect u s) = u)
   \<and> (truthy held \<longrightarrow> sessionId (sendMessage_settle clk held res s) = sessionId s)"
  using sendMessage_settle_sessionId [of clk held res s]
  by (auto simp: session_effect_def)

theorem session_effect_guard_witness:
  "truthy (sessionId (initial_chat\<lparr>sessionId := Some ''abc''\<rparr>))
   \<and> session_effect (Some ''42'') (initial_chat\<lparr>sessionId := Some ''abc''\<rparr>)
       = initial_chat\<lparr>sessionId := Some ''abc''\<rparr>
   \<and> sessionId (session_effect (Some ''42'') initial_chat) \<noteq> sessionId initial_chat
   \<and> sessionId (session_effect (Some ''42'') initial_chat) = Some ''42''
   \<and> truthy (Some ''abc'')
   \<and> sessionId (sendMessage_settle \<lparr>Date_now = 1500, new_Date = 1500\<rparr> (Some ''abc'')
        (Resolved \<lparr>status = 200, body = JsonData
          \<lparr>message = Some ''sure'', sources = None, session_id = Some ''xyz''\<rparr>\<rparr>)
        (initial_chat\<lparr>sessionId := Some ''abc''\<rparr>)) = Some ''abc''"
proof -
  have held: "truthy (sessionId (initial_chat\<lparr>sessionId := Some ''abc''\<rparr>))"
    by (simp add: truthy_def)
  have changed: "sessionId (session_effect (Some ''42'') initial_chat) \<noteq> sessionId initial_chat"
    by (simp add: session_effect_def truthy_def initial_chat_def)
  have captured: "truthy (Some ''abc'')"
    by (simp add: truthy_def)
  from held changed captured
    session_effect_guard [of "initial_chat\<lparr>sessionId := Some ''abc''\<rparr>" "Some ''42''"
      "Some ''abc''" "\<lparr>Date_now = 1500, new_Date = 1500\<rparr>"
      "Resolved \<lparr>status = 200, body = JsonData
          \<lparr>message = Some ''sure'', sources = None, session_id = Some ''xyz''\<rparr>\<rparr>"]
    session_effect_guard [of initial_chat "Some ''42''" None "\<lparr>Date_now = 0, new_Date = 0\<rparr>"
      Rejected]
  show ?thesis by simp
qed


section \<open>Chat page: failed requests\<close>

text \<open>
  When the \<open>fetch\<close> promise rejects, or the body is not JSON, or the body is \<open>null\<close>, the
  \<open>catch\<close> block runs: exactly one assistant message with the apology text and no
  \<open>sources\<close> field is appended, and the in-flight flag is lowered.
\<close>

lemma sendMessage_settle_apology:
  assumes "res = Rejected \<or> (\<exists>r. res = Resolved r \<and> (body r = Unparsable \<or> body r = JsonNull))"
  shows "sendMessage_settle clk held res s =
           s\<lparr>messages := messages s @
                [\<lparr>id_msg = toString (Date_now clk), role = Assistant, content = Some apology,
                  timestamp = new_Date clk, sources_msg = None\<rparr>],
             isLoading := False\<rparr>"
  using assms
  by (auto simp: sendMessage_settle_def sendMessage_try_def apology_message_def)

text \<open>The status of the response plays no part in what \<open>sendMessage\<close> does.\<close>

lemma sendMessage_settle_ignores_status:
  "sendMessage_settle clk held (Resolved \<lparr>status = st, body = b\<rparr>) s =
   sendMessage_settle clk held (Resolved \<lparr>status = st', body = b\<rparr>) s"
  by (simp add: sendMessage_settle_def sendMessage_try_def)

text \<open>
  The two scenarios of the chat page: a first reply that carries a session id, and a
  request that fails at the network level.
\<close>

lemma scenario_first_reply:
  "sendMessage
     \<lparr>arg = Some ''hello'', at_call = \<lparr>Date_now = 1000, new_Date = 1000\<rparr>,
      outcome = Resolved \<lparr>status = 200, body = JsonData
        \<lparr>message = Some ''hi there'', sources = None, session_id = Some ''abc''\<rparr>\<rparr>,
      at_settle = \<lparr>Date_now = 1500, new_Date = 1500\<rparr>\<rparr> initial_chat =
   \<lparr>messages =
      [\<lparr>id_msg = ''1000'', role = User, content = Some ''hello'', timestamp = 1000,
        sources_msg = None\<rparr>,
       \<lparr>id_msg = ''1501'', role = Assistant, content = Some ''hi there'', timestamp = 1500,
        sources_msg = Some []\<rparr>],
    inputMessage = [], isLoading = False, sessionId = Some ''abc'', showScrollButton = False\<rparr>"
proof -
  have stamps: "toString 1000 = ''1000''" "toString 1501 = ''1501''"
    by code_simp+
  show ?thesis
    by (simp add: sendMessage_def sendMessage_start_def sendMessage_settle_def
        sendMessage_try_def initial_chat_def or_else_def trim_def is_whitespace_def truthy_def
        stamps Let_def)
qed

lemma scenario_network_failure:
  "sendMessage
     \<lparr>arg = Some ''hello'', at_call = \<lparr>Date_now = 1000, new_Date = 1000\<rparr>,
      outcome = Rejected, at_settle = \<lparr>Date_now = 1500, new_Date = 1500\<rparr>\<rparr> initial_chat =
   \<lparr>messages =
      [\<lparr>id_msg = ''1000'', role = User, content = Some ''hello'', timestamp = 1000,
        sources_msg = None\<rparr>,
       \<lparr>id_msg = ''1500'', role = Assistant, content = Some apology, timestamp = 1500,
        sources_msg = None\<rparr>],
    inputMessage = [], isLoading = False, sessionId = None, showScrollButton = False\<rparr>"
proof -
  have stamps: "toString 1000 = ''1000''" "toString 1500 = ''1500''"
    by code_simp+
  show ?thesis
    by (simp add: sendMessage_def sendMessage_start_def sendMessage_settle_def
        sendMessage_try_def apology_message_def initial_chat_def or_else_def trim_def
        is_whitespace_def stamps Let_def)
qed

text \<open>
  C1. The status of the response is never read. A response with status 500 whose body is
  a JSON object without a \<open>message\<close> field goes through the success path: the message
  appended after the user's has \<open>undefined\<close> content and an empty source list, and it is
  not the apology.
\<close>

theorem sendMessage_non_2xx_not_apology:
  "sendMessage
     \<lparr>arg = Some ''hello'', at_call = \<lparr>Date_now = 1000, new_Date = 1000\<rparr>,
      outcome = Resolved \<lparr>status = 500, body = JsonData
        \<lparr>message = None, sources = None, session_id = None\<rparr>\<rparr>,
      at_settle = \<lparr>Date_now = 1500, new_Date = 1500\<rparr>\<rparr> initial_chat =
   \<lparr>messages =
      [\<lparr>id_msg = ''1000'', role = User, content = Some ''hello'', timestamp = 1000,
        sources_msg = None\<rparr>,
       \<lparr>id_msg = ''1501'', role = Assistant, content = None, timestamp = 1500,
        sources_msg = Some []\<rparr>],
    inputMessage = [], isLoading = False, sessionId = None, showScrollButton = False\<rparr>
   \<and> \<not> ok \<lparr>status = 500, body = JsonData \<lparr>message = None, sources = None, session_id = None\<rparr>\<rparr>
   \<and> apology_message \<lparr>Date_now = 1500, new_Date = 1500\<rparr> \<notin> set (messages (sendMessage
     \<lparr>arg = Some ''hello'', at_call = \<lparr>Date_now = 1000, new_Date = 1000\<rparr>,
      outcome = Resolved \<lparr>status = 500, body = JsonData
        \<lparr>message = None, sources = None, session_id = None\<rparr>\<rparr>,
      at_settle = \<lparr>Date_now = 1500, new_Date = 1500\<rparr>\<rparr> initial_chat))"
proof -
  have stamps: "toString 1000 = ''1000''" "toString 1501 = ''1501''"
    by code_simp+
  show ?thesis
    by (simp add: sendMessage_def sendMessage_start_def sendMessage_settle_def
        sendMessage_try_def apology_message_def initial_chat_def or_else_def trim_def
        is_whitespace_def truthy_def ok_def stamps Let_def)
qed


section \<open>Dashboard page: loading\<close>



text \<open>
  A 2xx response whose body does not decode raises inside the \<open>try\<close> block: the setters
  before it have run, those after it have not, and the error flag is set. Here the first
  of the three bodies is not JSON.
\<close>

lemma fetchDashboardData_undecodable:
  "ok statsResponse \<Longrightarrow> body statsResponse = Unparsable \<Longrightarrow>
     fetchDashboardData (Resolved statsResponse) (Resolved sessionsResponse)
       (Resolved insightsResponse) s = s\<lparr>loading := False, error := Some load_failed\<rparr>"
  by (simp add: fetchDashboardData_def fetchDashboardData_settle_def fetchDashboardData_start_def
      apply_stats_def)









section \<open>Dashboard page: deleting a session\<close>

text \<open>
  C9. When the user declines the confirmation dialog, \<open>deleteSession\<close> returns at once:
  it issues no request and the state (session list, statistics, insights, error flag
  and everything else) is the state it was called in.
\<close>

theorem deleteSession_declined:
  "deleteSession_start False sessionId' s = (s, [])"
  by (simp add: deleteSession_start_def)

text \<open>
  C6, as stated, fails: the delete request is not issued for every call. With the
  confirmation declined, a call for session 42 issues no request and leaves session 42
  in the list.
\<close>

theorem deleteSession_not_always_requested:
  "deleteSession_start False 42 (initial_dashboard\<lparr>recentSessions := [\<lparr>id_rs = 42, title_rs = ''Quantum'', messages_rs = 4, lastActive = ''today'', topics = [], status_rs = ''active''\<rparr>]\<rparr>) =
     ((initial_dashboard\<lparr>recentSessions := [\<lparr>id_rs = 42, title_rs = ''Quantum'', messages_rs = 4, lastActive = ''today'', topics = [], status_rs = ''active''\<rparr>]\<rparr>), [])"
  by (simp add: deleteSession_start_def)

text \<open>
  C6, amended. When the user accepts the confirmation dialog, \<open>deleteSession\<close> issues one
  DELETE request for that session id and changes no state before it settles. On a 2xx
  response the sessions with that id are filtered out of the displayed list and the
  refresh is started in the same step (the three GET requests are issued, \<open>loading\<close> is
  raised, the error flag cleared), so the list is already without the session while the
  refresh is pending. On a non-2xx response or a rejected request the state is unchanged
  but for the error flag, which is set, and no request is issued.
\<close>

theorem deleteSession_confirmed:
  "confirmed \<Longrightarrow>
     deleteSession_start confirmed sessionId' s =
       (s, [\<lparr>request_method = DELETE, url = delete_url sessionId', headers = [], payload = None\<rparr>])
     \<and> (ok (response :: 'a response) \<longrightarrow>
          deleteSession_settle sessionId' (Resolved response) s =
            (s\<lparr>recentSessions :=
                 filter (\<lambda>session. id_rs session \<noteq> sessionId') (recentSessions s),
               loading := True, error := None\<rparr>,
             dashboard_requests))
     \<and> (\<not> ok response \<longrightarrow>
          deleteSession_settle sessionId' (Resolved response) s =
            (s\<lparr>error := Some delete_failed\<rparr>, []))
     \<and> deleteSession_settle sessionId' (Rejected :: 'a settled) s =
          (s\<lparr>error := Some delete_failed\<rparr>, [])"
  by (simp add: deleteSession_start_def deleteSession_settle_def fetchDashboardData_start_def)

theorem deleteSession_confirmed_witness:
  "deleteSession_start True 42
       (initial_dashboard\<lparr>recentSessions := [\<lparr>id_rs = 41, title_rs = ''Solar'', messages_rs = 2, lastActive = ''monday'', topics = [''energy''], status_rs = ''active''\<rparr>,
          \<lparr>id_rs = 42, title_rs = ''Quantum'', messages_rs = 4, lastActive = ''today'', topics = [], status_rs = ''active''\<rparr>],
        loading := False\<rparr>) =
     ((initial_dashboard\<lparr>recentSessions := [\<lparr>id_rs = 41, title_rs = ''Solar'', messages_rs = 2, lastActive = ''monday'', topics = [''energy''], status_rs = ''active''\<rparr>,
          \<lparr>id_rs = 42, title_rs = ''Quantum'', messages_rs = 4, lastActive = ''today'', topics = [], status_rs = ''active''\<rparr>],
        loading := False\<rparr>),
      [\<lparr>request_method = DELETE, url = ''http://127.0.0.1:8000/api/chat/dashboard/sessions/42/delete/'',
        headers = [], payload = None\<rparr>])
   \<and> ok \<lparr>status = 204, body = Unparsable :: unit json_body\<rparr>
   \<and> deleteSession_settle 42 (Resolved \<lparr>status = 204, body = Unparsable :: unit json_body\<rparr>)
       (initial_dashboard\<lparr>recentSessions := [\<lparr>id_rs = 41, title_rs = ''Solar'', messages_rs = 2, lastActive = ''monday'', topics = [''energy''], status_rs = ''active''\<rparr>,
          \<lparr>id_rs = 42, title_rs = ''Quantum'', messages_rs = 4, lastActive = ''today'', topics = [], status_rs = ''active''\<rparr>],
        loading := False\<rparr>) =
     (\<lparr>isLoaded = False, activeFilter = ''all'', stats = Some \<lparr>research_sessions = 0, messages_exchanged = 0, sources_cited = 0, research_hours = 0\<rparr>,
       recentSessions = [\<lparr>id_rs = 41, title_rs = ''Solar'', messages_rs = 2, lastActive = ''monday'', topics = [''energy''], status_rs = ''active''\<rparr>],
       insights = [], loading = True, error = None\<rparr>,
      [\<lparr>request_method = GET, url = ''http://127.0.0.1:8000/api/chat/dashboard/stats/'', headers = [],
        payload = None\<rparr>,
       \<lparr>request_method = GET, url = ''http://127.0.0.1:8000/api/chat/dashboard/sessions/'', headers = [],
        payload = None\<rparr>,
       \<lparr>request_method = GET, url = ''http://127.0.0.1:8000/api/chat/dashboard/insights/'', headers = [],
        payload = None\<rparr>])
   \<and> \<not> ok \<lparr>status = 500, body = Unparsable :: unit json_body\<rparr>
   \<and> deleteSession_settle 42 (Resolved \<lparr>status = 500, body = Unparsable :: unit json_body\<rparr>)
       (initial_dashboard\<lparr>recentSessions := [\<lparr>id_rs = 41, title_rs = ''Solar'', messages_rs = 2, lastActive = ''monday'', topics = [''energy''], status_rs = ''active''\<rparr>,
          \<lparr>id_rs = 42, title_rs = ''Quantum'', messages_rs = 4, lastActive = ''today'', topics = [], status_rs = ''active''\<rparr>],
        loading := False\<rparr>) =
     (\<lparr>isLoaded = False, activeFilter = ''all'', stats = Some \<lparr>research_sessions = 0, messages_exchanged = 0, sources_cited = 0, research_hours = 0\<rparr>,
       recentSessions = [\<lparr>id_rs = 41, title_rs = ''Solar'', messages_rs = 2, lastActive = ''monday'', topics = [''energy''], status_rs = ''active''\<rparr>,
          \<lparr>id_rs = 42, title_rs = ''Quantum'', messages_rs = 4, lastActive = ''today'', topics = [], status_rs = ''active''\<rparr>],
       insights = [], loading = False, error = Some delete_failed\<rparr>, [])
   \<and> deleteSession_settle 42 (Rejected :: unit settled)
       (initial_dashboard\<lparr>recentSessions := [\<lparr>id_rs = 41, title_rs = ''Solar'', messages_rs = 2, lastActive = ''monday'', topics = [''energy''], status_rs = ''active''\<rparr>,
          \<lparr>id_rs = 42, title_rs = ''Quantum'', messages_rs = 4, lastActive = ''today'', topics = [], status_rs = ''active''\<rparr>],
        loading := False\<rparr>) =
     (\<lparr>isLoaded = False, activeFilter = ''all'', stats = Some \<lparr>research_sessions = 0, messages_exchanged = 0, sources_cited = 0, research_hours = 0\<rparr>,
       recentSessions = [\<lparr>id_rs = 41, title_rs = ''Solar'', messages_rs = 2, lastActive = ''monday'', topics = [''energy''], status_rs = ''active''\<rparr>,
          \<lparr>id_rs = 42, title_rs = ''Quantum'', messages_rs = 4, lastActive = ''today'', topics = [], status_rs = ''active''\<rparr>],
       insights = [], loading = False, error = Some delete_failed\<rparr>, [])"
proof -
  have accepted: "True" ..
  have target: "delete_url 42 = ''http://127.0.0.1:8000/api/chat/dashboard/sessions/42/delete/''"
    by code_simp
  have success: "ok \<lparr>status = 204, body = Unparsable :: unit json_body\<rparr>"
    by (simp add: ok_def)
  have refused: "\<not> ok \<lparr>status = 500, body = Unparsable :: unit json_body\<rparr>"
    by (simp add: ok_def)
  from success refused target
    deleteSession_confirmed [OF accepted, of 42
      "(initial_dashboard\<lparr>recentSessions := [\<lparr>id_rs = 41, title_rs = ''Solar'', messages_rs = 2, lastActive = ''monday'', topics = [''energy''], status_rs = ''active''\<rparr>,
          \<lparr>id_rs = 42, title_rs = ''Quantum'', messages_rs = 4, lastActive = ''today'', topics = [], status_rs = ''active''\<rparr>],
        loading := False\<rparr>)"
      "\<lparr>status = 204, body = Unparsable :: unit json_body\<rparr>"]
    deleteSession_confirmed [OF accepted, of 42
      "(initial_dashboard\<lparr>recentSessions := [\<lparr>id_rs = 41, title_rs = ''Solar'', messages_rs = 2, lastActive = ''monday'', topics = [''energy''], status_rs = ''active''\<rparr>,
          \<lparr>id_rs = 42, title_rs = ''Quantum'', messages_rs = 4, lastActive = ''today'', topics = [], status_rs = ''active''\<rparr>],
        loading := False\<rparr>)"
      "\<lparr>status = 500, body = Unparsable :: unit json_body\<rparr>"]
  show ?thesis
    by (simp add: initial_dashboard_def dashboard_requests_def fetch_get_def)
qed


section \<open>The base URL of the requests\<close>

text \<open>
  C7. \<open>API_BASE_URL\<close> takes the environment variable, with the localhost address as its
  fallback, and the calls of \<open>lib/api.ts\<close> go to it. The requests of the chat page and of
  the dashboard page do not: with the variable set to \<open>https://api.example.org/v1\<close> they
  still go to \<open>http://127.0.0.1:8000/api\<close>, which is neither the configured base nor the
  fallback.
\<close>

theorem page_requests_bypass_API_BASE_URL:
  "API_BASE_URL (Some ''https://api.example.org/v1'') = ''https://api.example.org/v1''
   \<and> API_BASE_URL None = ''http://localhost:8000/api''
   \<and> chatAPI_sendMessage (Some ''https://api.example.org/v1'')
       = \<lparr>baseURL = ''https://api.example.org/v1'', verb = POST, path = ''/chat/send/''\<rparr>
   \<and> map url (snd (sendMessage_start \<lparr>Date_now = 1000, new_Date = 1000\<rparr> (Some ''hello'')
        initial_chat)) = [''http://127.0.0.1:8000/api/chat/send/'']
   \<and> map url (snd (fetchDashboardData_start initial_dashboard)) =
       [''http://127.0.0.1:8000/api/chat/dashboard/stats/'',
        ''http://127.0.0.1:8000/api/chat/dashboard/sessions/'',
        ''http://127.0.0.1:8000/api/chat/dashboard/insights/'']
   \<and> map url (snd (deleteSession_start True 42 initial_dashboard)) =
       [''http://127.0.0.1:8000/api/chat/dashboard/sessions/42/delete/'']
   \<and> \<not> prefix (API_BASE_URL (Some ''https://api.example.org/v1''))
         ''http://127.0.0.1:8000/api/chat/send/''
   \<and> \<not> prefix (API_BASE_URL None) ''http://127.0.0.1:8000/api/chat/send/''"
proof -
  have target: "delete_url 42 = ''http://127.0.0.1:8000/api/chat/dashboard/sessions/42/delete/''"
    by code_simp
  show ?thesis
    by (simp add: API_BASE_URL_def or_else_def chatAPI_sendMessage_def api_def sendMessage_start_def
        fetchDashboardData_start_def deleteSession_start_def dashboard_requests_def fetch_get_def
        chat_send_url_def initial_chat_def trim_def is_whitespace_def target Let_def)
qed

end
